theory Spec2Isabelle
  imports Main
begin

section \<open>Data model of the XR retrieval component\<close>

text \<open>
  The component \<open>UCN_XRDataRetriever\<close> (ACN_XRDataRetriever.h/.cpp) has two member
  functions. Each builds a request, hands it to the static function
  \<open>UCyberNanoRustBridge::SendXRRequest\<close> and, when the bridge reports success and the
  response carries the compliance flag, copies one field of the response into the
  caller's out-parameter.
\<close>

text \<open>\<open>ECyberNanoXRAction\<close>: the scoped enum selecting the remote query.\<close>

datatype ECyberNanoXRAction =
    ECyberNanoXRAction_HostSnapshot
  | ECyberNanoXRAction_CorridorEnvelope

text \<open>
  \<open>FCyberNanoXRRequest\<close>: the three fields the component assigns or leaves as
  default-constructed.
\<close>

record FCyberNanoXRRequest =
  Action :: ECyberNanoXRAction
  HostId :: string
  SessionId :: string

text \<open>
  Modelled from the spec: the declarations of \<open>FXRHostSnapshot\<close>,
  \<open>FXRSessionEnvelope\<close> (CN_XRTypes.h) and \<open>FCyberNanoXRResponse\<close>
  (CyberNanoRustBridge.h) are not among the sources. The spec's data model gives the
  response as \<open>{compliant: bool, hostSnapshot: optional<HostSnapshotData>,
  sessionEnvelope: optional<SessionEnvelopeData>}\<close> with opaque payloads. The code
  assigns \<open>Res.HostSnapshot\<close> to \<open>OutSnapshot\<close> directly, so the out-parameter has the
  type of the response field: a payload struct is either populated with data
  (\<open>Some d\<close>) or absent, that is, left as default-constructed (\<open>None\<close>). The payload
  data itself is a type parameter.
\<close>

type_synonym 'h FXRHostSnapshot = "'h option"
type_synonym 'e FXRSessionEnvelope = "'e option"

record ('h, 'e) FCyberNanoXRResponse =
  bCompliant :: bool
  HostSnapshot :: "'h FXRHostSnapshot"
  SessionEnvelope :: "'e FXRSessionEnvelope"

text \<open>
  \<open>UCyberNanoRustBridge\<close> (CyberNanoRustBridge.h, not among the sources) is taken as a
  parameter: the default-constructed request and response, and the static function
  \<open>SendXRRequest(Req, Res)\<close>, which reads the request, may overwrite the response
  passed by reference, returns a bool, and may read and change state of its own
  (type \<open>'b\<close>).
\<close>

record ('h, 'e, 'b) UCyberNanoRustBridge =
  default_Req :: FCyberNanoXRRequest
  default_Res :: "('h, 'e) FCyberNanoXRResponse"
  SendXRRequest_impl ::
    "FCyberNanoXRRequest \<Rightarrow> ('h, 'e) FCyberNanoXRResponse \<Rightarrow> 'b
      \<Rightarrow> (bool \<times> ('h, 'e) FCyberNanoXRResponse) \<times> 'b"

text \<open>
  The state a call runs in: the component object itself (\<open>this\<close>: the class declares
  no member of its own, \<open>'c\<close> stands for what it inherits from \<open>UActorComponent\<close>),
  the state of the bridge, and the trace of the requests passed to
  \<open>SendXRRequest\<close> so far.
\<close>

record ('c, 'b) world =
  component :: 'c
  bridge_state :: 'b
  sent :: "FCyberNanoXRRequest list"

section \<open>Operations\<close>

text \<open>One invocation of \<open>UCyberNanoRustBridge::SendXRRequest(Req, Res)\<close>.\<close>

definition SendXRRequest ::
  "('h, 'e, 'b) UCyberNanoRustBridge \<Rightarrow> FCyberNanoXRRequest
    \<Rightarrow> ('h, 'e) FCyberNanoXRResponse \<Rightarrow> ('c, 'b) world
    \<Rightarrow> (bool \<times> ('h, 'e) FCyberNanoXRResponse) \<times> ('c, 'b) world" where
  "SendXRRequest B Req Res w =
     (let (r, b') = SendXRRequest_impl B Req Res (bridge_state w)
      in (r, w\<lparr>bridge_state := b', sent := sent w @ [Req]\<rparr>))"

text \<open>The request each operation builds (lines 8-10 and 31-33 of the .cpp).\<close>

definition HostSnapshot_Req ::
  "('h, 'e, 'b) UCyberNanoRustBridge \<Rightarrow> string \<Rightarrow> FCyberNanoXRRequest" where
  "HostSnapshot_Req B HostID =
     (default_Req B)\<lparr>Action := ECyberNanoXRAction_HostSnapshot, HostId := HostID\<rparr>"

definition CorridorEnvelope_Req ::
  "('h, 'e, 'b) UCyberNanoRustBridge \<Rightarrow> string \<Rightarrow> FCyberNanoXRRequest" where
  "CorridorEnvelope_Req B SessionID =
     (default_Req B)\<lparr>Action := ECyberNanoXRAction_CorridorEnvelope, SessionId := SessionID\<rparr>"

text \<open>
  \<open>PullXRHostSnapshot(HostID, OutSnapshot)\<close>: the result is the returned bool, the
  out-parameter after the call, and the state after the call.
\<close>

definition PullXRHostSnapshot ::
  "('h, 'e, 'b) UCyberNanoRustBridge \<Rightarrow> string \<Rightarrow> 'h FXRHostSnapshot \<Rightarrow> ('c, 'b) world
    \<Rightarrow> (bool \<times> 'h FXRHostSnapshot) \<times> ('c, 'b) world" where
  "PullXRHostSnapshot B HostID OutSnapshot w =
     (let Req = HostSnapshot_Req B HostID;
          ((ok, Res), w') = SendXRRequest B Req (default_Res B) w
      in if \<not> ok then ((False, OutSnapshot), w')
         else if \<not> bCompliant Res then ((False, OutSnapshot), w')
         else ((True, HostSnapshot Res), w'))"

text \<open>\<open>PullXRCorridorEnvelope(SessionID, OutEnvelope)\<close>.\<close>

definition PullXRCorridorEnvelope ::
  "('h, 'e, 'b) UCyberNanoRustBridge \<Rightarrow> string \<Rightarrow> 'e FXRSessionEnvelope \<Rightarrow> ('c, 'b) world
    \<Rightarrow> (bool \<times> 'e FXRSessionEnvelope) \<times> ('c, 'b) world" where
  "PullXRCorridorEnvelope B SessionID OutEnvelope w =
     (let Req = CorridorEnvelope_Req B SessionID;
          ((ok, Res), w') = SendXRRequest B Req (default_Res B) w
      in if \<not> ok then ((False, OutEnvelope), w')
         else if \<not> bCompliant Res then ((False, OutEnvelope), w')
         else ((True, SessionEnvelope Res), w'))"

text \<open>
  What the bridge answers to a request in a given state: the returned bool and the
  response object as it stands after the call.
\<close>

definition transport_outcome ::
  "('h, 'e, 'b) UCyberNanoRustBridge \<Rightarrow> FCyberNanoXRRequest \<Rightarrow> ('c, 'b) world
    \<Rightarrow> bool \<times> ('h, 'e) FCyberNanoXRResponse" where
  "transport_outcome B Req w = fst (SendXRRequest_impl B Req (default_Res B) (bridge_state w))"

section \<open>Concrete bridges and states for evaluation\<close>

text \<open>
  A bridge with string payloads and no state of its own: requests and responses are
  default-constructed with empty strings, a cleared flag and absent payloads, and
  \<open>SendXRRequest\<close> returns \<open>ok\<close> after applying \<open>fill\<close> to the response object.
\<close>

definition test_bridge ::
  "bool
    \<Rightarrow> ((string, string) FCyberNanoXRResponse \<Rightarrow> (string, string) FCyberNanoXRResponse)
    \<Rightarrow> (string, string, unit) UCyberNanoRustBridge" where
  "test_bridge ok fill =
     \<lparr>default_Req = \<lparr>Action = ECyberNanoXRAction_HostSnapshot, HostId = [], SessionId = []\<rparr>,
      default_Res = \<lparr>bCompliant = False, HostSnapshot = None, SessionEnvelope = None\<rparr>,
      SendXRRequest_impl = (\<lambda>Req Res b. ((ok, fill Res), b))\<rparr>"

definition w0 :: "(unit, unit) world" where
  "w0 = \<lparr>component = (), bridge_state = (), sent = []\<rparr>"

text \<open>
  A bridge whose own state counts the invocations of \<open>SendXRRequest\<close>; every
  invocation answers with a compliant response carrying both payloads.
\<close>

definition counting_bridge :: "(string, string, nat) UCyberNanoRustBridge" where
  "counting_bridge =
     \<lparr>default_Req = \<lparr>Action = ECyberNanoXRAction_HostSnapshot, HostId = [], SessionId = []\<rparr>,
      default_Res = \<lparr>bCompliant = False, HostSnapshot = None, SessionEnvelope = None\<rparr>,
      SendXRRequest_impl =
        (\<lambda>Req Res n. ((True, Res\<lparr>bCompliant := True, HostSnapshot := Some ''{temp:21.5}'',
                                   SessionEnvelope := Some ''{corridor:3}''\<rparr>), Suc n))\<rparr>"

section \<open>Shared facts\<close>

lemma PullXRHostSnapshot_result:
  "fst (PullXRHostSnapshot B HostID OutSnapshot w) =
     (let (ok, Res) = transport_outcome B (HostSnapshot_Req B HostID) w
      in if ok \<and> bCompliant Res then (True, HostSnapshot Res) else (False, OutSnapshot))"
  by (simp add: PullXRHostSnapshot_def SendXRRequest_def transport_outcome_def
      Let_def split_def)

lemma PullXRCorridorEnvelope_result:
  "fst (PullXRCorridorEnvelope B SessionID OutEnvelope w) =
     (let (ok, Res) = transport_outcome B (CorridorEnvelope_Req B SessionID) w
      in if ok \<and> bCompliant Res then (True, SessionEnvelope Res) else (False, OutEnvelope))"
  by (simp add: PullXRCorridorEnvelope_def SendXRRequest_def transport_outcome_def
      Let_def split_def)

lemma PullXRHostSnapshot_world:
  "snd (PullXRHostSnapshot B HostID OutSnapshot w) =
     w\<lparr>bridge_state :=
          snd (SendXRRequest_impl B (HostSnapshot_Req B HostID) (default_Res B) (bridge_state w)),
        sent := sent w @ [HostSnapshot_Req B HostID]\<rparr>"
  by (simp add: PullXRHostSnapshot_def SendXRRequest_def Let_def split_def)

lemma PullXRCorridorEnvelope_world:
  "snd (PullXRCorridorEnvelope B SessionID OutEnvelope w) =
     w\<lparr>bridge_state :=
          snd (SendXRRequest_impl B (CorridorEnvelope_Req B SessionID) (default_Res B)
                 (bridge_state w)),
        sent := sent w @ [CorridorEnvelope_Req B SessionID]\<rparr>"
  by (simp add: PullXRCorridorEnvelope_def SendXRRequest_def Let_def split_def)

lemmas eval_defs =
  test_bridge_def w0_def transport_outcome_def SendXRRequest_def
  HostSnapshot_Req_def CorridorEnvelope_Req_def
  PullXRHostSnapshot_def PullXRCorridorEnvelope_def Let_def split_def

section \<open>The compliance gate\<close>

text \<open>
  C2, as the spec states it: if the exchange with the bridge succeeds but the
  response's compliant flag is false, the operation fails with NonCompliant, an
  error kind of its own, and exposes no data. The code has one failure result, false:
  for the spec's scenario (sess-7, a response that is not compliant) the caller of
  \<open>PullXRCorridorEnvelope\<close> gets exactly what a transport failure gives, so the
  result does not say NonCompliant.
\<close>

theorem non_compliant_kind_counterexample:
  "fst (transport_outcome
         (test_bridge True (\<lambda>R. R\<lparr>bCompliant := False, SessionEnvelope := Some ''{corridor:3}''\<rparr>))
         (CorridorEnvelope_Req
            (test_bridge True
               (\<lambda>R. R\<lparr>bCompliant := False, SessionEnvelope := Some ''{corridor:3}''\<rparr>))
            ''sess-7'') w0)
   \<and> \<not> bCompliant (snd (transport_outcome
         (test_bridge True (\<lambda>R. R\<lparr>bCompliant := False, SessionEnvelope := Some ''{corridor:3}''\<rparr>))
         (CorridorEnvelope_Req
            (test_bridge True
               (\<lambda>R. R\<lparr>bCompliant := False, SessionEnvelope := Some ''{corridor:3}''\<rparr>))
            ''sess-7'') w0))
   \<and> \<not> fst (transport_outcome (test_bridge False (\<lambda>R. R))
         (CorridorEnvelope_Req (test_bridge False (\<lambda>R. R)) ''sess-7'') w0)
   \<and> fst (PullXRCorridorEnvelope
         (test_bridge True (\<lambda>R. R\<lparr>bCompliant := False, SessionEnvelope := Some ''{corridor:3}''\<rparr>))
         ''sess-7'' (Some ''{corridor:1}'') w0)
       = fst (PullXRCorridorEnvelope (test_bridge False (\<lambda>R. R))
                ''sess-7'' (Some ''{corridor:1}'') w0)"
  by (simp add: eval_defs)

text \<open>
  C2, amended: for every \<open>HostID\<close>, if the exchange with the bridge succeeds but the
  response's compliant flag is false, \<open>PullXRHostSnapshot\<close> fails by returning false,
  the same result as for a transport failure and with no error kind of its own, and
  exposes no data: the out-parameter is as it was at entry, whatever the payload
  fields of the response hold. Symmetrically for \<open>PullXRCorridorEnvelope\<close>.
\<close>

theorem non_compliant_fails_as_transport_failure:
  "(fst (transport_outcome B (HostSnapshot_Req B HostID) w)
      \<and> \<not> bCompliant (snd (transport_outcome B (HostSnapshot_Req B HostID) w))
      \<longrightarrow> fst (PullXRHostSnapshot B HostID OutSnapshot w) = (False, OutSnapshot)
        \<and> (\<not> fst (transport_outcome B' (HostSnapshot_Req B' HostID) w')
            \<longrightarrow> fst (PullXRHostSnapshot B' HostID OutSnapshot w')
                  = fst (PullXRHostSnapshot B HostID OutSnapshot w)))
   \<and> (fst (transport_outcome B (CorridorEnvelope_Req B SessionID) w)
      \<and> \<not> bCompliant (snd (transport_outcome B (CorridorEnvelope_Req B SessionID) w))
      \<longrightarrow> fst (PullXRCorridorEnvelope B SessionID OutEnvelope w) = (False, OutEnvelope)
        \<and> (\<not> fst (transport_outcome B' (CorridorEnvelope_Req B' SessionID) w')
            \<longrightarrow> fst (PullXRCorridorEnvelope B' SessionID OutEnvelope w')
                  = fst (PullXRCorridorEnvelope B SessionID OutEnvelope w)))"
  by (simp add: PullXRHostSnapshot_result PullXRCorridorEnvelope_result Let_def split_def)

text \<open>
  A response that is not compliant although both payload fields are populated:
  neither payload reaches the caller, and a bridge that reports failure gives the
  caller the same result.
\<close>

theorem non_compliant_fails_as_transport_failure_witness:
  "(let B = test_bridge True
        (\<lambda>R. R\<lparr>bCompliant := False, HostSnapshot := Some ''{temp:21.5}'',
                SessionEnvelope := Some ''{corridor:3}''\<rparr>);
        Bf = test_bridge False (\<lambda>R. R)
    in fst (PullXRHostSnapshot B ''host-42'' (Some ''{temp:19.0}'') w0)
         = (False, Some ''{temp:19.0}'')
       \<and> fst (PullXRHostSnapshot Bf ''host-42'' (Some ''{temp:19.0}'') w0)
         = fst (PullXRHostSnapshot B ''host-42'' (Some ''{temp:19.0}'') w0)
       \<and> fst (PullXRCorridorEnvelope B ''sess-7'' None w0) = (False, None)
       \<and> fst (PullXRCorridorEnvelope Bf ''sess-7'' None w0)
         = fst (PullXRCorridorEnvelope B ''sess-7'' None w0))"
proof -
  define B where "B = test_bridge True
        (\<lambda>R. R\<lparr>bCompliant := False, HostSnapshot := Some ''{temp:21.5}'',
                SessionEnvelope := Some ''{corridor:3}''\<rparr>)"
  define Bf where "Bf = test_bridge False (\<lambda>R. R)"
  have h1: "fst (transport_outcome B (HostSnapshot_Req B ''host-42'') w0)
       \<and> \<not> bCompliant (snd (transport_outcome B (HostSnapshot_Req B ''host-42'') w0))"
    by (simp add: B_def test_bridge_def w0_def transport_outcome_def)
  have h2: "fst (transport_outcome B (CorridorEnvelope_Req B ''sess-7'') w0)
       \<and> \<not> bCompliant (snd (transport_outcome B (CorridorEnvelope_Req B ''sess-7'') w0))"
    by (simp add: B_def test_bridge_def w0_def transport_outcome_def)
  have h3: "\<not> fst (transport_outcome Bf (HostSnapshot_Req Bf ''host-42'') w0)"
    by (simp add: Bf_def test_bridge_def w0_def transport_outcome_def)
  have h4: "\<not> fst (transport_outcome Bf (CorridorEnvelope_Req Bf ''sess-7'') w0)"
    by (simp add: Bf_def test_bridge_def w0_def transport_outcome_def)
  from non_compliant_fails_as_transport_failure
         [where B = B and B' = Bf and HostID = "''host-42''" and SessionID = "''sess-7''"
            and w = w0 and w' = w0 and OutSnapshot = "Some ''{temp:19.0}''"
            and OutEnvelope = None] h1 h2 h3 h4
  show ?thesis unfolding Let_def B_def [symmetric] Bf_def [symmetric] by blast
qed

text \<open>
  C3. For every non-empty \<open>HostID\<close>, if the bridge answers with a compliant response
  whose host snapshot is present, \<open>PullXRHostSnapshot\<close> returns true and the
  out-parameter holds exactly that snapshot.
\<close>

theorem compliant_snapshot_is_returned:
  assumes "HostID \<noteq> []"
    and "transport_outcome B (HostSnapshot_Req B HostID) w = (True, Res)"
    and "bCompliant Res"
    and "HostSnapshot Res = Some s"
  shows "fst (PullXRHostSnapshot B HostID OutSnapshot w) = (True, Some s)"
  using assms by (simp add: PullXRHostSnapshot_result)

text \<open>The spec's scenario: host-42 and a compliant response carrying \<open>{temp:21.5}\<close>.\<close>

theorem compliant_snapshot_is_returned_witness:
  "fst (PullXRHostSnapshot
         (test_bridge True (\<lambda>R. R\<lparr>bCompliant := True, HostSnapshot := Some ''{temp:21.5}''\<rparr>))
         ''host-42'' None w0) = (True, Some ''{temp:21.5}'')"
proof -
  define B where "B = test_bridge True
        (\<lambda>R. R\<lparr>bCompliant := True, HostSnapshot := Some ''{temp:21.5}''\<rparr>)"
  have h1: "''host-42'' \<noteq> []" by simp
  have h2: "transport_outcome B (HostSnapshot_Req B ''host-42'') w0 =
       (True, \<lparr>bCompliant = True, HostSnapshot = Some ''{temp:21.5}'', SessionEnvelope = None\<rparr>)"
    by (simp add: B_def test_bridge_def w0_def transport_outcome_def)
  have "fst (PullXRHostSnapshot B ''host-42'' None w0) = (True, Some ''{temp:21.5}'')"
    by (rule compliant_snapshot_is_returned [OF h1 h2]) simp_all
  then show ?thesis unfolding B_def .
qed

section \<open>What is surfaced to the caller\<close>

text \<open>
  C1, as the spec states it: a payload is surfaced (true returned, out-parameter
  written) only when the response is compliant and the payload field matching the
  requested action is present. The code does not look at presence: a compliant
  response without a session envelope makes \<open>PullXRCorridorEnvelope\<close> return true and
  overwrite the caller's envelope with the absent one.
\<close>

theorem surfaced_without_payload_counterexample:
  "fst (fst (PullXRCorridorEnvelope (test_bridge True (\<lambda>R. R\<lparr>bCompliant := True\<rparr>))
               ''sess-7'' (Some ''{corridor:3}'') w0))
   \<and> snd (fst (PullXRCorridorEnvelope (test_bridge True (\<lambda>R. R\<lparr>bCompliant := True\<rparr>))
               ''sess-7'' (Some ''{corridor:3}'') w0)) = None
   \<and> SessionEnvelope (snd (transport_outcome (test_bridge True (\<lambda>R. R\<lparr>bCompliant := True\<rparr>))
        (CorridorEnvelope_Req (test_bridge True (\<lambda>R. R\<lparr>bCompliant := True\<rparr>)) ''sess-7'')
        w0)) = None"
  by (simp add: eval_defs)

text \<open>
  C1, amended: a payload is surfaced only when the exchange with the bridge succeeded
  and the response's compliant flag is true, and what is written is then exactly the
  response field of the requested action (\<open>HostSnapshot\<close> for \<open>PullXRHostSnapshot\<close>,
  \<open>SessionEnvelope\<close> for \<open>PullXRCorridorEnvelope\<close>) as the bridge left it, present or
  absent.
\<close>

theorem surfaced_only_when_compliant:
  "(fst (fst (PullXRHostSnapshot B HostID OutSnapshot w))
      \<longrightarrow> fst (transport_outcome B (HostSnapshot_Req B HostID) w)
        \<and> bCompliant (snd (transport_outcome B (HostSnapshot_Req B HostID) w))
        \<and> snd (fst (PullXRHostSnapshot B HostID OutSnapshot w))
            = HostSnapshot (snd (transport_outcome B (HostSnapshot_Req B HostID) w)))
   \<and> (fst (fst (PullXRCorridorEnvelope B SessionID OutEnvelope w))
      \<longrightarrow> fst (transport_outcome B (CorridorEnvelope_Req B SessionID) w)
        \<and> bCompliant (snd (transport_outcome B (CorridorEnvelope_Req B SessionID) w))
        \<and> snd (fst (PullXRCorridorEnvelope B SessionID OutEnvelope w))
            = SessionEnvelope (snd (transport_outcome B (CorridorEnvelope_Req B SessionID) w)))"
  by (simp add: PullXRHostSnapshot_result PullXRCorridorEnvelope_result Let_def split_def)

theorem surfaced_only_when_compliant_witness:
  "(let B = test_bridge True
        (\<lambda>R. R\<lparr>bCompliant := True, HostSnapshot := Some ''{temp:21.5}'',
                SessionEnvelope := Some ''{corridor:3}''\<rparr>)
    in fst (fst (PullXRHostSnapshot B ''host-42'' None w0))
       \<and> fst (transport_outcome B (HostSnapshot_Req B ''host-42'') w0)
       \<and> bCompliant (snd (transport_outcome B (HostSnapshot_Req B ''host-42'') w0))
       \<and> snd (fst (PullXRHostSnapshot B ''host-42'' None w0))
           = HostSnapshot (snd (transport_outcome B (HostSnapshot_Req B ''host-42'') w0))
       \<and> fst (fst (PullXRCorridorEnvelope B ''sess-7'' None w0))
       \<and> fst (transport_outcome B (CorridorEnvelope_Req B ''sess-7'') w0)
       \<and> bCompliant (snd (transport_outcome B (CorridorEnvelope_Req B ''sess-7'') w0))
       \<and> snd (fst (PullXRCorridorEnvelope B ''sess-7'' None w0))
           = SessionEnvelope (snd (transport_outcome B (CorridorEnvelope_Req B ''sess-7'') w0)))"
proof -
  define B where "B = test_bridge True
        (\<lambda>R. R\<lparr>bCompliant := True, HostSnapshot := Some ''{temp:21.5}'',
                SessionEnvelope := Some ''{corridor:3}''\<rparr>)"
  have h1: "fst (fst (PullXRHostSnapshot B ''host-42'' None w0))"
    by (simp add: B_def eval_defs)
  have h2: "fst (fst (PullXRCorridorEnvelope B ''sess-7'' None w0))"
    by (simp add: B_def eval_defs)
  from surfaced_only_when_compliant
         [where B = B and HostID = "''host-42''" and SessionID = "''sess-7''" and w = w0
            and OutSnapshot = None and OutEnvelope = None] h1 h2
  show ?thesis unfolding B_def Let_def by blast
qed

text \<open>
  C5, as the spec states it: a compliant response whose host snapshot is absent makes
  \<open>PullXRHostSnapshot\<close> fail (MalformedResponse) rather than return a payload. The
  code returns true and replaces the caller's snapshot by the absent one.
\<close>

theorem absent_payload_counterexample:
  "fst (transport_outcome (test_bridge True (\<lambda>R. R\<lparr>bCompliant := True\<rparr>))
          (HostSnapshot_Req (test_bridge True (\<lambda>R. R\<lparr>bCompliant := True\<rparr>)) ''host-42'') w0)
   \<and> bCompliant (snd (transport_outcome (test_bridge True (\<lambda>R. R\<lparr>bCompliant := True\<rparr>))
          (HostSnapshot_Req (test_bridge True (\<lambda>R. R\<lparr>bCompliant := True\<rparr>)) ''host-42'') w0))
   \<and> HostSnapshot (snd (transport_outcome (test_bridge True (\<lambda>R. R\<lparr>bCompliant := True\<rparr>))
          (HostSnapshot_Req (test_bridge True (\<lambda>R. R\<lparr>bCompliant := True\<rparr>)) ''host-42'') w0))
       = None
   \<and> fst (PullXRHostSnapshot (test_bridge True (\<lambda>R. R\<lparr>bCompliant := True\<rparr>))
            ''host-42'' (Some ''{temp:19.0}'') w0) = (True, None)"
  by (simp add: eval_defs)

text \<open>
  C5, amended: if the bridge answers with a compliant response whose host snapshot is
  absent, \<open>PullXRHostSnapshot\<close> returns true and the out-parameter holds the absent
  snapshot; symmetrically for \<open>PullXRCorridorEnvelope\<close> and the session envelope.
\<close>

theorem absent_payload_is_copied:
  "(fst (transport_outcome B (HostSnapshot_Req B HostID) w)
      \<and> bCompliant (snd (transport_outcome B (HostSnapshot_Req B HostID) w))
      \<and> HostSnapshot (snd (transport_outcome B (HostSnapshot_Req B HostID) w)) = None
      \<longrightarrow> fst (PullXRHostSnapshot B HostID OutSnapshot w) = (True, None))
   \<and> (fst (transport_outcome B (CorridorEnvelope_Req B SessionID) w)
      \<and> bCompliant (snd (transport_outcome B (CorridorEnvelope_Req B SessionID) w))
      \<and> SessionEnvelope (snd (transport_outcome B (CorridorEnvelope_Req B SessionID) w)) = None
      \<longrightarrow> fst (PullXRCorridorEnvelope B SessionID OutEnvelope w) = (True, None))"
  by (simp add: PullXRHostSnapshot_result PullXRCorridorEnvelope_result Let_def split_def)

theorem absent_payload_is_copied_witness:
  "(let B = test_bridge True (\<lambda>R. R\<lparr>bCompliant := True\<rparr>)
    in fst (transport_outcome B (HostSnapshot_Req B ''host-9'') w0)
       \<and> bCompliant (snd (transport_outcome B (HostSnapshot_Req B ''host-9'') w0))
       \<and> HostSnapshot (snd (transport_outcome B (HostSnapshot_Req B ''host-9'') w0)) = None
       \<and> fst (PullXRHostSnapshot B ''host-9'' (Some ''{temp:19.0}'') w0) = (True, None)
       \<and> fst (transport_outcome B (CorridorEnvelope_Req B ''sess-9'') w0)
       \<and> bCompliant (snd (transport_outcome B (CorridorEnvelope_Req B ''sess-9'') w0))
       \<and> SessionEnvelope (snd (transport_outcome B (CorridorEnvelope_Req B ''sess-9'') w0)) = None
       \<and> fst (PullXRCorridorEnvelope B ''sess-9'' (Some ''{corridor:1}'') w0) = (True, None))"
proof -
  define B where "B = test_bridge True (\<lambda>R. R\<lparr>bCompliant := True\<rparr>)"
  have h1: "fst (transport_outcome B (HostSnapshot_Req B ''host-9'') w0)
       \<and> bCompliant (snd (transport_outcome B (HostSnapshot_Req B ''host-9'') w0))
       \<and> HostSnapshot (snd (transport_outcome B (HostSnapshot_Req B ''host-9'') w0)) = None"
    by (simp add: B_def test_bridge_def w0_def transport_outcome_def)
  have h2: "fst (transport_outcome B (CorridorEnvelope_Req B ''sess-9'') w0)
       \<and> bCompliant (snd (transport_outcome B (CorridorEnvelope_Req B ''sess-9'') w0))
       \<and> SessionEnvelope (snd (transport_outcome B (CorridorEnvelope_Req B ''sess-9'') w0)) = None"
    by (simp add: B_def test_bridge_def w0_def transport_outcome_def)
  from absent_payload_is_copied
         [where B = B and HostID = "''host-9''" and SessionID = "''sess-9''" and w = w0
            and OutSnapshot = "Some ''{temp:19.0}''" and OutEnvelope = "Some ''{corridor:1}''"]
       h1 h2
  show ?thesis unfolding B_def Let_def by blast
qed

section \<open>Frame of the out-parameter\<close>

text \<open>
  C9. Every call of \<open>PullXRHostSnapshot\<close> that returns false leaves \<open>OutSnapshot\<close>
  exactly as it was at entry, and every call of \<open>PullXRCorridorEnvelope\<close> that
  returns false leaves \<open>OutEnvelope\<close> exactly as it was at entry.
\<close>

theorem false_return_leaves_out_parameter:
  "(\<not> fst (fst (PullXRHostSnapshot B HostID OutSnapshot w))
      \<longrightarrow> snd (fst (PullXRHostSnapshot B HostID OutSnapshot w)) = OutSnapshot)
   \<and> (\<not> fst (fst (PullXRCorridorEnvelope B SessionID OutEnvelope w))
      \<longrightarrow> snd (fst (PullXRCorridorEnvelope B SessionID OutEnvelope w)) = OutEnvelope)"
  by (simp add: PullXRHostSnapshot_result PullXRCorridorEnvelope_result Let_def split_def)

text \<open>
  A transport failure for the host snapshot and a non-compliant response for the
  corridor envelope: the caller's earlier values survive.
\<close>

theorem false_return_leaves_out_parameter_witness:
  "\<not> fst (fst (PullXRHostSnapshot (test_bridge False (\<lambda>R. R)) ''host-42''
                 (Some ''{temp:19.0}'') w0))
   \<and> snd (fst (PullXRHostSnapshot (test_bridge False (\<lambda>R. R)) ''host-42''
                 (Some ''{temp:19.0}'') w0)) = Some ''{temp:19.0}''
   \<and> \<not> fst (fst (PullXRCorridorEnvelope
                 (test_bridge True (\<lambda>R. R\<lparr>SessionEnvelope := Some ''{corridor:3}''\<rparr>))
                 ''sess-7'' (Some ''{corridor:1}'') w0))
   \<and> snd (fst (PullXRCorridorEnvelope
                 (test_bridge True (\<lambda>R. R\<lparr>SessionEnvelope := Some ''{corridor:3}''\<rparr>))
                 ''sess-7'' (Some ''{corridor:1}'') w0)) = Some ''{corridor:1}''"
proof -
  have h1: "\<not> fst (fst (PullXRHostSnapshot (test_bridge False (\<lambda>R. R)) ''host-42''
                 (Some ''{temp:19.0}'') w0))"
    by (simp add: eval_defs)
  have h2: "\<not> fst (fst (PullXRCorridorEnvelope
                 (test_bridge True (\<lambda>R. R\<lparr>SessionEnvelope := Some ''{corridor:3}''\<rparr>))
                 ''sess-7'' (Some ''{corridor:1}'') w0))"
    by (simp add: eval_defs)
  from false_return_leaves_out_parameter
         [where B = "test_bridge False (\<lambda>R. R)" and HostID = "''host-42''"
            and OutSnapshot = "Some ''{temp:19.0}''" and w = w0] h1
  have c1: "snd (fst (PullXRHostSnapshot (test_bridge False (\<lambda>R. R)) ''host-42''
                 (Some ''{temp:19.0}'') w0)) = Some ''{temp:19.0}''"
    by blast
  from false_return_leaves_out_parameter
         [where B = "test_bridge True (\<lambda>R. R\<lparr>SessionEnvelope := Some ''{corridor:3}''\<rparr>)"
            and SessionID = "''sess-7''" and OutEnvelope = "Some ''{corridor:1}''" and w = w0] h2
  have c2: "snd (fst (PullXRCorridorEnvelope
                 (test_bridge True (\<lambda>R. R\<lparr>SessionEnvelope := Some ''{corridor:3}''\<rparr>))
                 ''sess-7'' (Some ''{corridor:1}'') w0)) = Some ''{corridor:1}''"
    by blast
  from h1 h2 c1 c2 show ?thesis by blast
qed

section \<open>Requests sent to the bridge\<close>

text \<open>
  C8. For every non-empty \<open>HostID\<close>, one call of \<open>PullXRHostSnapshot\<close> invokes
  \<open>SendXRRequest\<close> exactly once, with a request that has action \<open>HostSnapshot\<close> and
  carries the given \<open>HostID\<close>: the state of the bridge after the call is its state
  after one application of \<open>SendXRRequest\<close> to that request, the trace grows by that
  one request, and the result is computed from the answer of that application (no
  retry, no cached answer). Symmetrically, \<open>PullXRCorridorEnvelope\<close> sends exactly
  one request, with action \<open>CorridorEnvelope\<close> and the given \<open>SessionID\<close>.
\<close>

theorem one_request_per_call:
  "(HostID \<noteq> [] \<longrightarrow>
      (\<exists>Req. Action Req = ECyberNanoXRAction_HostSnapshot \<and> HostId Req = HostID
         \<and> snd (PullXRHostSnapshot B HostID OutSnapshot w) =
             w\<lparr>bridge_state :=
                  snd (SendXRRequest_impl B Req (default_Res B) (bridge_state w)),
               sent := sent w @ [Req]\<rparr>
         \<and> fst (PullXRHostSnapshot B HostID OutSnapshot w) =
             (let (ok, Res) = fst (SendXRRequest_impl B Req (default_Res B) (bridge_state w))
              in if ok \<and> bCompliant Res then (True, HostSnapshot Res)
                 else (False, OutSnapshot))))
   \<and> (SessionID \<noteq> [] \<longrightarrow>
      (\<exists>Req. Action Req = ECyberNanoXRAction_CorridorEnvelope \<and> SessionId Req = SessionID
         \<and> snd (PullXRCorridorEnvelope B SessionID OutEnvelope w) =
             w\<lparr>bridge_state :=
                  snd (SendXRRequest_impl B Req (default_Res B) (bridge_state w)),
               sent := sent w @ [Req]\<rparr>
         \<and> fst (PullXRCorridorEnvelope B SessionID OutEnvelope w) =
             (let (ok, Res) = fst (SendXRRequest_impl B Req (default_Res B) (bridge_state w))
              in if ok \<and> bCompliant Res then (True, SessionEnvelope Res)
                 else (False, OutEnvelope))))"
proof (intro conjI impI)
  show "\<exists>Req. Action Req = ECyberNanoXRAction_HostSnapshot \<and> HostId Req = HostID
         \<and> snd (PullXRHostSnapshot B HostID OutSnapshot w) =
             w\<lparr>bridge_state :=
                  snd (SendXRRequest_impl B Req (default_Res B) (bridge_state w)),
               sent := sent w @ [Req]\<rparr>
         \<and> fst (PullXRHostSnapshot B HostID OutSnapshot w) =
             (let (ok, Res) = fst (SendXRRequest_impl B Req (default_Res B) (bridge_state w))
              in if ok \<and> bCompliant Res then (True, HostSnapshot Res)
                 else (False, OutSnapshot))"
    by (rule exI [of _ "HostSnapshot_Req B HostID"])
       (simp add: PullXRHostSnapshot_world PullXRHostSnapshot_result transport_outcome_def,
        simp add: HostSnapshot_Req_def)
next
  show "\<exists>Req. Action Req = ECyberNanoXRAction_CorridorEnvelope \<and> SessionId Req = SessionID
         \<and> snd (PullXRCorridorEnvelope B SessionID OutEnvelope w) =
             w\<lparr>bridge_state :=
                  snd (SendXRRequest_impl B Req (default_Res B) (bridge_state w)),
               sent := sent w @ [Req]\<rparr>
         \<and> fst (PullXRCorridorEnvelope B SessionID OutEnvelope w) =
             (let (ok, Res) = fst (SendXRRequest_impl B Req (default_Res B) (bridge_state w))
              in if ok \<and> bCompliant Res then (True, SessionEnvelope Res)
                 else (False, OutEnvelope))"
    by (rule exI [of _ "CorridorEnvelope_Req B SessionID"])
       (simp add: PullXRCorridorEnvelope_world PullXRCorridorEnvelope_result
          transport_outcome_def,
        simp add: CorridorEnvelope_Req_def)
qed

text \<open>
  Two calls in a row against the counting bridge, started at zero: the bridge has
  been invoked once after the first call and twice after the second, and the trace
  holds one request and then two.
\<close>

theorem one_request_per_call_witness:
  "(let w = \<lparr>component = (), bridge_state = (0::nat), sent = []\<rparr>;
        w1 = snd (PullXRHostSnapshot counting_bridge ''host-42'' None w);
        w2 = snd (PullXRCorridorEnvelope counting_bridge ''sess-7'' None w1)
    in ''host-42'' \<noteq> [] \<and> ''sess-7'' \<noteq> []
       \<and> bridge_state w1 = 1 \<and> length (sent w1) = 1
       \<and> bridge_state w2 = 2 \<and> length (sent w2) = 2)"
proof -
  define w :: "(unit, nat) world"
    where "w = \<lparr>component = (), bridge_state = (0::nat), sent = []\<rparr>"
  define w1 where "w1 = snd (PullXRHostSnapshot counting_bridge ''host-42'' None w)"
  define w2 where "w2 = snd (PullXRCorridorEnvelope counting_bridge ''sess-7'' None w1)"
  have n1: "''host-42'' \<noteq> []" and n2: "''sess-7'' \<noteq> []" by simp_all
  from one_request_per_call
         [where B = counting_bridge and HostID = "''host-42''" and w = w
            and OutSnapshot = None] n1
  obtain Req1 where e1: "w1 =
      w\<lparr>bridge_state :=
           snd (SendXRRequest_impl counting_bridge Req1 (default_Res counting_bridge)
                  (bridge_state w)),
        sent := sent w @ [Req1]\<rparr>"
    unfolding w1_def by blast
  have s1: "bridge_state w1 = 1 \<and> length (sent w1) = 1"
    by (simp add: e1 w_def counting_bridge_def)
  from one_request_per_call
         [where B = counting_bridge and SessionID = "''sess-7''" and w = w1
            and OutEnvelope = None] n2
  obtain Req2 where e2: "w2 =
      w1\<lparr>bridge_state :=
           snd (SendXRRequest_impl counting_bridge Req2 (default_Res counting_bridge)
                  (bridge_state w1)),
        sent := sent w1 @ [Req2]\<rparr>"
    unfolding w2_def by blast
  have s2: "bridge_state w2 = 2 \<and> length (sent w2) = 2"
    by (simp add: e2 s1 counting_bridge_def)
  from n1 n2 s1 s2 show ?thesis
    unfolding Let_def w_def [symmetric] w1_def [symmetric] w2_def [symmetric] by blast
qed




section \<open>Failure causes at the caller\<close>

text \<open>
  C6, as the spec states it: no two distinct failure situations among transport
  failure, non-compliant response and malformed response produce the same observable
  result. In the code a transport failure and a non-compliant response both give
  false with the out-parameter untouched.
\<close>

theorem failure_causes_counterexample:
  "\<not> fst (transport_outcome (test_bridge False (\<lambda>R. R))
            (HostSnapshot_Req (test_bridge False (\<lambda>R. R)) ''host-42'') w0)
   \<and> fst (transport_outcome (test_bridge True (\<lambda>R. R\<lparr>bCompliant := False\<rparr>))
            (HostSnapshot_Req (test_bridge True (\<lambda>R. R\<lparr>bCompliant := False\<rparr>)) ''host-42'') w0)
   \<and> \<not> bCompliant (snd (transport_outcome (test_bridge True (\<lambda>R. R\<lparr>bCompliant := False\<rparr>))
            (HostSnapshot_Req (test_bridge True (\<lambda>R. R\<lparr>bCompliant := False\<rparr>)) ''host-42'') w0))
   \<and> fst (PullXRHostSnapshot (test_bridge False (\<lambda>R. R)) ''host-42'' None w0)
       = fst (PullXRHostSnapshot (test_bridge True (\<lambda>R. R\<lparr>bCompliant := False\<rparr>))
                ''host-42'' None w0)"
  by (simp add: eval_defs)

text \<open>
  C6, amended: the caller-facing result of each operation is the returned bool and
  the out-parameter. A transport failure and a non-compliant response produce the
  same observable result (false, the out-parameter as at entry), so the caller cannot
  tell them apart; either differs from the result for a compliant response, absent
  payload included, which is true.
\<close>

theorem failure_causes_observed:
  "(let o1 = transport_outcome B1 (HostSnapshot_Req B1 HostID1) w1;
        o2 = transport_outcome B2 (HostSnapshot_Req B2 HostID2) w2;
        r1 = fst (PullXRHostSnapshot B1 HostID1 OutSnapshot w1);
        r2 = fst (PullXRHostSnapshot B2 HostID2 OutSnapshot w2)
    in ((\<not> fst o1 \<or> \<not> bCompliant (snd o1)) \<and> (\<not> fst o2 \<or> \<not> bCompliant (snd o2))
          \<longrightarrow> r1 = (False, OutSnapshot) \<and> r2 = (False, OutSnapshot))
       \<and> ((\<not> fst o1 \<or> \<not> bCompliant (snd o1)) \<and> fst o2 \<and> bCompliant (snd o2)
          \<longrightarrow> \<not> fst r1 \<and> fst r2))
   \<and> (let o1 = transport_outcome B1 (CorridorEnvelope_Req B1 SessionID1) w1;
        o2 = transport_outcome B2 (CorridorEnvelope_Req B2 SessionID2) w2;
        r1 = fst (PullXRCorridorEnvelope B1 SessionID1 OutEnvelope w1);
        r2 = fst (PullXRCorridorEnvelope B2 SessionID2 OutEnvelope w2)
    in ((\<not> fst o1 \<or> \<not> bCompliant (snd o1)) \<and> (\<not> fst o2 \<or> \<not> bCompliant (snd o2))
          \<longrightarrow> r1 = (False, OutEnvelope) \<and> r2 = (False, OutEnvelope))
       \<and> ((\<not> fst o1 \<or> \<not> bCompliant (snd o1)) \<and> fst o2 \<and> bCompliant (snd o2)
          \<longrightarrow> \<not> fst r1 \<and> fst r2))"
  by (simp add: PullXRHostSnapshot_result PullXRCorridorEnvelope_result Let_def split_def)

text \<open>
  A transport failure against a non-compliant response (same result), and the same
  transport failure against a compliant response without payload (false against
  true).
\<close>

theorem failure_causes_observed_witness:
  "fst (PullXRHostSnapshot (test_bridge False (\<lambda>R. R)) ''host-42'' (Some ''{temp:19.0}'') w0)
     = (False, Some ''{temp:19.0}'')
   \<and> fst (PullXRHostSnapshot (test_bridge True (\<lambda>R. R\<lparr>HostSnapshot := Some ''{temp:21.5}''\<rparr>))
            ''host-42'' (Some ''{temp:19.0}'') w0)
     = (False, Some ''{temp:19.0}'')
   \<and> fst (fst (PullXRCorridorEnvelope (test_bridge True (\<lambda>R. R\<lparr>bCompliant := True\<rparr>))
                 ''sess-7'' (Some ''{corridor:1}'') w0))
   \<and> \<not> fst (fst (PullXRCorridorEnvelope (test_bridge False (\<lambda>R. R))
                 ''sess-7'' (Some ''{corridor:1}'') w0))"
proof -
  define Bf where "Bf = test_bridge False (\<lambda>R. R)"
  define Bn where "Bn = test_bridge True (\<lambda>R. R\<lparr>HostSnapshot := Some ''{temp:21.5}''\<rparr>)"
  define Bm where "Bm = test_bridge True (\<lambda>R. R\<lparr>bCompliant := True\<rparr>)"
  have h1: "\<not> fst (transport_outcome Bf (HostSnapshot_Req Bf ''host-42'') w0)"
    by (simp add: Bf_def test_bridge_def w0_def transport_outcome_def)
  have h2: "\<not> bCompliant (snd (transport_outcome Bn (HostSnapshot_Req Bn ''host-42'') w0))"
    by (simp add: Bn_def test_bridge_def w0_def transport_outcome_def)
  have h3: "\<not> fst (transport_outcome Bf (CorridorEnvelope_Req Bf ''sess-7'') w0)"
    by (simp add: Bf_def test_bridge_def w0_def transport_outcome_def)
  have h4: "fst (transport_outcome Bm (CorridorEnvelope_Req Bm ''sess-7'') w0)
      \<and> bCompliant (snd (transport_outcome Bm (CorridorEnvelope_Req Bm ''sess-7'') w0))"
    by (simp add: Bm_def test_bridge_def w0_def transport_outcome_def)
  from failure_causes_observed
         [where ?B1.0 = Bf and ?B2.0 = Bn and ?HostID1.0 = "''host-42''"
            and ?HostID2.0 = "''host-42''" and ?w1.0 = w0 and ?w2.0 = w0
            and OutSnapshot = "Some ''{temp:19.0}''"] h1 h2
  have c1: "fst (PullXRHostSnapshot Bf ''host-42'' (Some ''{temp:19.0}'') w0)
              = (False, Some ''{temp:19.0}'')
     \<and> fst (PullXRHostSnapshot Bn ''host-42'' (Some ''{temp:19.0}'') w0)
              = (False, Some ''{temp:19.0}'')"
    unfolding Let_def by blast
  from failure_causes_observed
         [where ?B1.0 = Bf and ?B2.0 = Bm and ?SessionID1.0 = "''sess-7''"
            and ?SessionID2.0 = "''sess-7''" and ?w1.0 = w0 and ?w2.0 = w0
            and OutEnvelope = "Some ''{corridor:1}''"] h3 h4
  have c2: "\<not> fst (fst (PullXRCorridorEnvelope Bf ''sess-7'' (Some ''{corridor:1}'') w0))
     \<and> fst (fst (PullXRCorridorEnvelope Bm ''sess-7'' (Some ''{corridor:1}'') w0))"
    unfolding Let_def by blast
  from c1 c2 show ?thesis unfolding Bf_def Bn_def Bm_def by blast
qed

section \<open>Pairing of action and response field\<close>

text \<open>
  C7, as the spec states it: a response whose only populated payload is the session
  envelope never lets \<open>PullXRHostSnapshot\<close> succeed. The code does not compare the
  response with the action it asked for: when such a response is compliant, the call
  returns true and overwrites the caller's snapshot with the absent one.
\<close>

theorem crossed_response_counterexample:
  "HostSnapshot (snd (transport_outcome
       (test_bridge True (\<lambda>R. R\<lparr>bCompliant := True, SessionEnvelope := Some ''{corridor:3}''\<rparr>))
       (HostSnapshot_Req
          (test_bridge True (\<lambda>R. R\<lparr>bCompliant := True, SessionEnvelope := Some ''{corridor:3}''\<rparr>))
          ''host-42'') w0)) = None
   \<and> SessionEnvelope (snd (transport_outcome
       (test_bridge True (\<lambda>R. R\<lparr>bCompliant := True, SessionEnvelope := Some ''{corridor:3}''\<rparr>))
       (HostSnapshot_Req
          (test_bridge True (\<lambda>R. R\<lparr>bCompliant := True, SessionEnvelope := Some ''{corridor:3}''\<rparr>))
          ''host-42'') w0)) = Some ''{corridor:3}''
   \<and> fst (PullXRHostSnapshot
       (test_bridge True (\<lambda>R. R\<lparr>bCompliant := True, SessionEnvelope := Some ''{corridor:3}''\<rparr>))
       ''host-42'' (Some ''{temp:19.0}'') w0) = (True, None)"
  by (simp add: eval_defs)

text \<open>
  C7, amended: for every response whose only populated payload is the session
  envelope, \<open>PullXRHostSnapshot\<close> never hands out that envelope: if the exchange
  succeeded and the response is compliant it returns true and writes the absent host
  snapshot, otherwise it returns false and writes nothing. Symmetrically for
  \<open>PullXRCorridorEnvelope\<close> and a response whose only populated payload is the host
  snapshot.
\<close>

theorem crossed_response_writes_own_field:
  "(HostSnapshot (snd (transport_outcome B (HostSnapshot_Req B HostID) w)) = None
      \<and> SessionEnvelope (snd (transport_outcome B (HostSnapshot_Req B HostID) w)) \<noteq> None
      \<longrightarrow> fst (PullXRHostSnapshot B HostID OutSnapshot w) =
          (if fst (transport_outcome B (HostSnapshot_Req B HostID) w)
               \<and> bCompliant (snd (transport_outcome B (HostSnapshot_Req B HostID) w))
           then (True, None) else (False, OutSnapshot)))
   \<and> (SessionEnvelope (snd (transport_outcome B (CorridorEnvelope_Req B SessionID) w)) = None
      \<and> HostSnapshot (snd (transport_outcome B (CorridorEnvelope_Req B SessionID) w)) \<noteq> None
      \<longrightarrow> fst (PullXRCorridorEnvelope B SessionID OutEnvelope w) =
          (if fst (transport_outcome B (CorridorEnvelope_Req B SessionID) w)
               \<and> bCompliant (snd (transport_outcome B (CorridorEnvelope_Req B SessionID) w))
           then (True, None) else (False, OutEnvelope)))"
  by (simp add: PullXRHostSnapshot_result PullXRCorridorEnvelope_result Let_def split_def)

theorem crossed_response_writes_own_field_witness:
  "fst (PullXRHostSnapshot
         (test_bridge True (\<lambda>R. R\<lparr>bCompliant := True, SessionEnvelope := Some ''{corridor:3}''\<rparr>))
         ''host-7'' (Some ''{temp:19.0}'') w0) = (True, None)
   \<and> fst (PullXRCorridorEnvelope
         (test_bridge True (\<lambda>R. R\<lparr>bCompliant := True, HostSnapshot := Some ''{temp:21.5}''\<rparr>))
         ''sess-7'' (Some ''{corridor:1}'') w0) = (True, None)"
proof -
  define Be where "Be = test_bridge True
        (\<lambda>R. R\<lparr>bCompliant := True, SessionEnvelope := Some ''{corridor:3}''\<rparr>)"
  define Bh where "Bh = test_bridge True
        (\<lambda>R. R\<lparr>bCompliant := True, HostSnapshot := Some ''{temp:21.5}''\<rparr>)"
  have h1: "HostSnapshot (snd (transport_outcome Be (HostSnapshot_Req Be ''host-7'') w0)) = None
      \<and> SessionEnvelope (snd (transport_outcome Be (HostSnapshot_Req Be ''host-7'') w0)) \<noteq> None
      \<and> fst (transport_outcome Be (HostSnapshot_Req Be ''host-7'') w0)
      \<and> bCompliant (snd (transport_outcome Be (HostSnapshot_Req Be ''host-7'') w0))"
    by (simp add: Be_def test_bridge_def w0_def transport_outcome_def)
  have h2: "SessionEnvelope (snd (transport_outcome Bh (CorridorEnvelope_Req Bh ''sess-7'') w0)) = None
      \<and> HostSnapshot (snd (transport_outcome Bh (CorridorEnvelope_Req Bh ''sess-7'') w0)) \<noteq> None
      \<and> fst (transport_outcome Bh (CorridorEnvelope_Req Bh ''sess-7'') w0)
      \<and> bCompliant (snd (transport_outcome Bh (CorridorEnvelope_Req Bh ''sess-7'') w0))"
    by (simp add: Bh_def test_bridge_def w0_def transport_outcome_def)
  from crossed_response_writes_own_field
         [where B = Be and HostID = "''host-7''" and w = w0
            and OutSnapshot = "Some ''{temp:19.0}''"] h1
  have c1: "fst (PullXRHostSnapshot Be ''host-7'' (Some ''{temp:19.0}'') w0) = (True, None)"
    by presburger
  from crossed_response_writes_own_field
         [where B = Bh and SessionID = "''sess-7''" and w = w0
            and OutEnvelope = "Some ''{corridor:1}''"] h2
  have c2: "fst (PullXRCorridorEnvelope Bh ''sess-7'' (Some ''{corridor:1}'') w0) = (True, None)"
    by presburger
  from c1 c2 show ?thesis unfolding Be_def Bh_def by blast
qed

section \<open>Determinism\<close>

text \<open>
  C10. Both operations are functions of their argument and of the bridge's answer
  alone. Take two calls with the same identifier, against any two bridges in any two
  states (other component objects, other bridge states, other requests sent before):
  if the bridge's answer is the same in both, the returned bool is the same, the
  payload written on success is the same, and with the same out-parameter at entry
  the whole result is the same. The component object is never changed by a call, so
  nothing is carried from one call to the next.
\<close>

theorem result_depends_on_answer_only:
  "(transport_outcome B1 (HostSnapshot_Req B1 HostID) w1
      = transport_outcome B2 (HostSnapshot_Req B2 HostID) w2
      \<longrightarrow> fst (fst (PullXRHostSnapshot B1 HostID Out1 w1))
            = fst (fst (PullXRHostSnapshot B2 HostID Out2 w2))
        \<and> (fst (fst (PullXRHostSnapshot B1 HostID Out1 w1))
            \<longrightarrow> snd (fst (PullXRHostSnapshot B1 HostID Out1 w1))
                  = snd (fst (PullXRHostSnapshot B2 HostID Out2 w2)))
        \<and> (Out1 = Out2
            \<longrightarrow> fst (PullXRHostSnapshot B1 HostID Out1 w1)
                  = fst (PullXRHostSnapshot B2 HostID Out2 w2)))
   \<and> (transport_outcome B1 (CorridorEnvelope_Req B1 SessionID) w1
      = transport_outcome B2 (CorridorEnvelope_Req B2 SessionID) w2
      \<longrightarrow> fst (fst (PullXRCorridorEnvelope B1 SessionID Env1 w1))
            = fst (fst (PullXRCorridorEnvelope B2 SessionID Env2 w2))
        \<and> (fst (fst (PullXRCorridorEnvelope B1 SessionID Env1 w1))
            \<longrightarrow> snd (fst (PullXRCorridorEnvelope B1 SessionID Env1 w1))
                  = snd (fst (PullXRCorridorEnvelope B2 SessionID Env2 w2)))
        \<and> (Env1 = Env2
            \<longrightarrow> fst (PullXRCorridorEnvelope B1 SessionID Env1 w1)
                  = fst (PullXRCorridorEnvelope B2 SessionID Env2 w2)))
   \<and> component (snd (PullXRHostSnapshot B1 HostID Out1 w1)) = component w1
   \<and> component (snd (PullXRCorridorEnvelope B1 SessionID Env1 w1)) = component w1"
  by (simp add: PullXRHostSnapshot_result PullXRCorridorEnvelope_result
      PullXRHostSnapshot_world PullXRCorridorEnvelope_world Let_def split_def)

text \<open>
  Two bridges that build the same answer in different ways, called in different
  states (another component object, one request already sent) and with different
  values in the out-parameter.
\<close>

theorem result_depends_on_answer_only_witness:
  "(let B1 = test_bridge True (\<lambda>R. \<lparr>bCompliant = True, HostSnapshot = Some ''{temp:21.5}'',
                                     SessionEnvelope = None\<rparr>);
        B2 = test_bridge True (\<lambda>R. R\<lparr>bCompliant := True, HostSnapshot := Some ''{temp:21.5}''\<rparr>);
        w1 = \<lparr>component = (7::nat), bridge_state = (),
                sent = [CorridorEnvelope_Req B1 ''sess-7'']\<rparr>
    in transport_outcome B1 (HostSnapshot_Req B1 ''host-42'') w1
         = transport_outcome B2 (HostSnapshot_Req B2 ''host-42'') w0
       \<and> fst (fst (PullXRHostSnapshot B1 ''host-42'' (Some ''{temp:19.0}'') w1))
       \<and> snd (fst (PullXRHostSnapshot B1 ''host-42'' (Some ''{temp:19.0}'') w1))
         = snd (fst (PullXRHostSnapshot B2 ''host-42'' None w0))
       \<and> fst (PullXRCorridorEnvelope B1 ''sess-7'' None w1)
         = fst (PullXRCorridorEnvelope B2 ''sess-7'' None w0)
       \<and> component (snd (PullXRHostSnapshot B1 ''host-42'' (Some ''{temp:19.0}'') w1)) = 7)"
proof -
  define B1 where "B1 = test_bridge True
        (\<lambda>R. \<lparr>bCompliant = True, HostSnapshot = Some ''{temp:21.5}'', SessionEnvelope = None\<rparr>)"
  define B2 where "B2 = test_bridge True
        (\<lambda>R. R\<lparr>bCompliant := True, HostSnapshot := Some ''{temp:21.5}''\<rparr>)"
  define w1 :: "(nat, unit) world" where "w1 = \<lparr>component = (7::nat), bridge_state = (),
                sent = [CorridorEnvelope_Req B1 ''sess-7'']\<rparr>"
  have h1: "transport_outcome B1 (HostSnapshot_Req B1 ''host-42'') w1
         = transport_outcome B2 (HostSnapshot_Req B2 ''host-42'') w0"
    by (simp add: B1_def B2_def test_bridge_def w0_def w1_def transport_outcome_def)
  have h2: "transport_outcome B1 (CorridorEnvelope_Req B1 ''sess-7'') w1
         = transport_outcome B2 (CorridorEnvelope_Req B2 ''sess-7'') w0"
    by (simp add: B1_def B2_def test_bridge_def w0_def w1_def transport_outcome_def)
  have h3: "fst (fst (PullXRHostSnapshot B1 ''host-42'' (Some ''{temp:19.0}'') w1))"
    by (simp add: B1_def w1_def eval_defs)
  have h4: "component w1 = 7" by (simp add: w1_def)
  have h5: "(None :: string option) = None" by simp
  note a = result_depends_on_answer_only
         [where ?B1.0 = B1 and ?B2.0 = B2 and HostID = "''host-42''" and SessionID = "''sess-7''"
            and ?w1.0 = w1 and ?w2.0 = w0 and ?Out1.0 = "Some ''{temp:19.0}''"
            and ?Out2.0 = None and ?Env1.0 = None and ?Env2.0 = None]
  from a h1 h3
  have c1: "snd (fst (PullXRHostSnapshot B1 ''host-42'' (Some ''{temp:19.0}'') w1))
         = snd (fst (PullXRHostSnapshot B2 ''host-42'' None w0))"
    by blast
  from a h2 h5
  have c2: "fst (PullXRCorridorEnvelope B1 ''sess-7'' None w1)
         = fst (PullXRCorridorEnvelope B2 ''sess-7'' None w0)"
    by blast
  from a h4
  have c3: "component (snd (PullXRHostSnapshot B1 ''host-42'' (Some ''{temp:19.0}'') w1)) = 7"
    by simp
  show ?thesis
    unfolding Let_def B1_def [symmetric] B2_def [symmetric] w1_def [symmetric]
    by (intro conjI) (rule h1, rule h3, rule c1, rule c2, rule c3)
qed

end
